theory Spec2Isabelle
  imports Complex_Main
begin

section \<open>Technician arrival analysis: the arrival resolver of app.py\<close>

text \<open>
  The embedding follows \<^verbatim>\<open>src/app.py\<close>. Conventions:
  \<^item> Python floats (coordinates, distances, delays) are read as real numbers; NaN and the
    infinities have no counterpart, and rounding is not modelled.
  \<^item> A pandas \<^verbatim>\<open>Timestamp\<close> is the integer number of nanoseconds since the epoch, a
    \<^verbatim>\<open>Timedelta\<close> an integer number of nanoseconds. \<open>find_arrival_time\<close> computes with
    unbounded integers; \<open>find_arrival_time_bounded\<close> is the same function with the 64-bit
    range of a \<^verbatim>\<open>Timestamp\<close>, where the window bounds of lines 56-57 can leave the range
    and the subtraction or addition raises.
  \<^item> A missing value (\<^verbatim>\<open>None\<close>, \<^verbatim>\<open>NaT\<close>, \<^verbatim>\<open>NaN\<close> as tested by \<^verbatim>\<open>pd.isna\<close>) is \<open>None\<close>.
  \<^item> A data frame of GPS pings is the list of its rows, in row order.
\<close>

subsection \<open>Data\<close>

type_synonym timestamp = int

text \<open>
  One row of the GPS table (columns \<^verbatim>\<open>technician_id, timestamp, latitude, longitude\<close>).
  The column \<^verbatim>\<open>distance\<close> is the one that \<^verbatim>\<open>find_arrival_time\<close> adds to its working copy;
  it is \<open>None\<close> in a row of a table that does not have the column.
\<close>

record 'tid gps_row =
  technician_id :: 'tid
  timestamp :: timestamp
  latitude :: real
  longitude :: real
  distance :: "real option"

type_synonym 'tid dataframe = "'tid gps_row list"

subsection \<open>Distance between two points (app.py, lines 42-49)\<close>

definition calculate_distance :: "real \<Rightarrow> real \<Rightarrow> real \<Rightarrow> real \<Rightarrow> real" where
  "calculate_distance lat1 lon1 lat2 lon2 =
     (let lat_diff = lat1 - lat2;
          lon_diff = lon1 - lon2;
          distance_degrees = (lat_diff ^ 2 + lon_diff ^ 2) powr (1 / 2);
          distance_meters = distance_degrees * 111000
      in distance_meters)"

subsection \<open>Arrival time of a technician at a job (app.py, lines 52-82)\<close>

text \<open>\<^verbatim>\<open>pd.Timedelta(hours=h)\<close>, in nanoseconds.\<close>

definition Timedelta_hours :: "int \<Rightarrow> int" where
  "Timedelta_hours h = h * 3600000000000"

text \<open>
  \<^verbatim>\<open>Series.min()\<close> of a timestamp column: the least entry, and the missing value for a
  column without entries.
\<close>

fun series_min :: "timestamp list \<Rightarrow> timestamp option" where
  "series_min [] = None"
| "series_min (t # ts) = Some (fold min ts t)"

text \<open>
  The value computed by \<^verbatim>\<open>find_arrival_time\<close>. Boolean indexing is \<open>filter\<close>; the row-wise
  \<^verbatim>\<open>apply\<close> followed by the assignment to the column \<^verbatim>\<open>distance\<close> sets that column in every
  row of the working copy.
\<close>

definition find_arrival_time ::
  "'tid dataframe \<Rightarrow> 'tid \<Rightarrow> real \<Rightarrow> real \<Rightarrow> timestamp \<Rightarrow> timestamp option" where
  "find_arrival_time gps_data tech_id job_lat job_lon scheduled_time =
     (let time_window_start = scheduled_time - Timedelta_hours 2;
          time_window_end = scheduled_time + Timedelta_hours 2;
          tech_gps = filter (\<lambda>row. technician_id row = tech_id
                               \<and> timestamp row \<ge> time_window_start
                               \<and> timestamp row \<le> time_window_end) gps_data
      in if tech_gps = [] then None
         else
           let tech_gps = map (\<lambda>row. row\<lparr>distance :=
                                 Some (calculate_distance (latitude row) (longitude row) job_lat job_lon)\<rparr>)
                              tech_gps;
               close_points = filter (\<lambda>row. case distance row of Some d \<Rightarrow> d \<le> 100 | None \<Rightarrow> False)
                                tech_gps
           in if close_points \<noteq> [] then series_min (map timestamp close_points) else None)"

subsection \<open>Status of a delay and its colour (app.py, lines 85-108)\<close>

definition get_arrival_status :: "real option \<Rightarrow> string" where
  "get_arrival_status delay_minutes =
     (case delay_minutes of
        None \<Rightarrow> ''No GPS Data''
      | Some d \<Rightarrow>
          if d \<le> - 5 then ''Early''
          else if d \<le> 5 then ''On Time''
          else if d \<le> 30 then ''Late''
          else ''Very Late'')"

definition colors :: "(string \<times> string) list" where
  "colors =
     [(''Early'', ''green''),
      (''On Time'', ''lightgreen''),
      (''Late'', ''orange''),
      (''Very Late'', ''red''),
      (''No GPS Data'', ''gray'')]"

definition get_status_color :: "string \<Rightarrow> string" where
  "get_status_color status =
     (case map_of colors status of Some c \<Rightarrow> c | None \<Rightarrow> ''gray'')"

subsection \<open>Delay and status of one job (app.py, lines 150-174)\<close>

text \<open>\<^verbatim>\<open>Timedelta.total_seconds()\<close>: nanoseconds to seconds.\<close>

definition total_seconds :: "int \<Rightarrow> real" where
  "total_seconds td = real_of_int td / 1000000000"

text \<open>
  The column \<^verbatim>\<open>delay_minutes\<close>, for one row: the difference of the arrival and the scheduled
  start in minutes, missing where the arrival is missing.
\<close>

definition delay_minutes :: "timestamp option \<Rightarrow> timestamp \<Rightarrow> real option" where
  "delay_minutes actual_arrival scheduled_start =
     (case actual_arrival of
        None \<Rightarrow> None
      | Some a \<Rightarrow> Some (total_seconds (a - scheduled_start) / 60))"

text \<open>
  One row of the schedule table (columns \<^verbatim>\<open>technician_id, job_id, job_latitude,
  job_longitude, scheduled_start\<close>); the technician column is named \<open>job_technician_id\<close>
  here, apart from the column of the GPS table.
\<close>

record 'tid schedule_row =
  job_technician_id :: 'tid
  job_id :: string
  job_latitude :: real
  job_longitude :: real
  scheduled_start :: timestamp

text \<open>
  What the main script computes for one job of the schedule: the three derived columns
  \<^verbatim>\<open>actual_arrival\<close>, \<^verbatim>\<open>delay_minutes\<close> and \<^verbatim>\<open>status\<close>. This is the row of a run in which at
  least one selected job has an arrival, so that the column \<^verbatim>\<open>actual_arrival\<close> holds
  timestamps and a missing arrival is \<^verbatim>\<open>NaT\<close>. A run in which no selected job has an arrival
  is not covered: there the column holds only \<^verbatim>\<open>None\<close>, the subtraction of line 169 raises
  \<^verbatim>\<open>TypeError\<close>, and no delay or status is produced.
\<close>

definition analyze_job ::
  "'tid dataframe \<Rightarrow> 'tid schedule_row \<Rightarrow> timestamp option \<times> real option \<times> string" where
  "analyze_job gps_data job =
     (let arrival_time = find_arrival_time gps_data (job_technician_id job)
                           (job_latitude job) (job_longitude job) (scheduled_start job);
          delay = delay_minutes arrival_time (scheduled_start job);
          status = get_arrival_status delay
      in (arrival_time, delay, status))"

subsection \<open>The resolver on a store of data frames\<close>

text \<open>
  Data frames are objects: \<^verbatim>\<open>find_arrival_time\<close> receives a reference to the GPS table,
  builds new frames by boolean indexing and by \<^verbatim>\<open>copy()\<close>, and assigns a column of its copy
  in place. The store maps references to frames; \<open>next_ref\<close> is the first unused reference.
\<close>

record 'tid store =
  frames :: "nat \<Rightarrow> 'tid dataframe"
  next_ref :: nat

text \<open>A new frame object (the result of boolean indexing, or of \<^verbatim>\<open>copy()\<close>).\<close>

definition new_frame :: "'tid dataframe \<Rightarrow> 'tid store \<Rightarrow> nat \<times> 'tid store" where
  "new_frame df s =
     (next_ref s, s\<lparr>frames := (frames s)(next_ref s := df), next_ref := Suc (next_ref s)\<rparr>)"

text \<open>Assignment into an existing frame object.\<close>

definition set_frame :: "nat \<Rightarrow> 'tid dataframe \<Rightarrow> 'tid store \<Rightarrow> 'tid store" where
  "set_frame r df s = s\<lparr>frames := (frames s)(r := df)\<rparr>"

text \<open>
  \<^verbatim>\<open>find_arrival_time\<close> statement by statement, with \<open>gps_data\<close> a reference; the local
  names \<open>tech_gps\<close> and \<open>close_points\<close> are references too, rebound as in the source.
\<close>

definition find_arrival_time_store ::
  "nat \<Rightarrow> 'tid \<Rightarrow> real \<Rightarrow> real \<Rightarrow> timestamp \<Rightarrow> 'tid store \<Rightarrow> timestamp option \<times> 'tid store" where
  "find_arrival_time_store gps_data tech_id job_lat job_lon scheduled_time s =
     (let time_window_start = scheduled_time - Timedelta_hours 2;
          time_window_end = scheduled_time + Timedelta_hours 2;
          (tech_gps, s) = new_frame (filter (\<lambda>row. technician_id row = tech_id
                                               \<and> timestamp row \<ge> time_window_start
                                               \<and> timestamp row \<le> time_window_end)
                                      (frames s gps_data)) s
      in if frames s tech_gps = [] then (None, s)
         else
           let (tech_gps, s) = new_frame (frames s tech_gps) s;
               s = set_frame tech_gps
                     (map (\<lambda>row. row\<lparr>distance :=
                             Some (calculate_distance (latitude row) (longitude row) job_lat job_lon)\<rparr>)
                          (frames s tech_gps)) s;
               (close_points, s) = new_frame (filter (\<lambda>row. case distance row of Some d \<Rightarrow> d \<le> 100
                                                              | None \<Rightarrow> False)
                                               (frames s tech_gps)) s
           in if frames s close_points \<noteq> []
              then (series_min (map timestamp (frames s close_points)), s)
              else (None, s))"

subsection \<open>The resolver with the range of a Timestamp\<close>






subsection \<open>The resolver as the specification words it\<close>


text \<open>
  A qualifying ping of the specification: in the window of the technician, and at most
  100 meters from the site by the proximity metric.
\<close>

definition qualifying :: "'tid \<Rightarrow> real \<Rightarrow> real \<Rightarrow> timestamp \<Rightarrow> 'tid gps_row \<Rightarrow> bool" where
  "qualifying tech_id site_latitude site_longitude start p \<longleftrightarrow>
     technician_id p = tech_id
     \<and> start - Timedelta_hours 2 \<le> timestamp p
     \<and> timestamp p \<le> start + Timedelta_hours 2
     \<and> calculate_distance (latitude p) (longitude p) site_latitude site_longitude \<le> 100"

subsection \<open>The example of the specification\<close>

text \<open>
  Technician T, job at the site (0, 0) scheduled at 09:00 (on 2024-01-01, that is
  1704099600 seconds after the epoch): pings at 09:00 (150 m away), 09:05 (80 m away) and
  09:10 (60 m away). A ping at latitude \<open>m / 111000\<close> and longitude 0 is \<open>m\<close> meters from
  the site.
\<close>

definition example_pings :: "string dataframe" where
  "example_pings =
     [\<lparr>technician_id = ''T'', timestamp = 1704099600000000000,
       latitude = 150 / 111000, longitude = 0, distance = None\<rparr>,
      \<lparr>technician_id = ''T'', timestamp = 1704099900000000000,
       latitude = 80 / 111000, longitude = 0, distance = None\<rparr>,
      \<lparr>technician_id = ''T'', timestamp = 1704100200000000000,
       latitude = 60 / 111000, longitude = 0, distance = None\<rparr>]"

section \<open>Properties\<close>

subsection \<open>Distance\<close>

lemma sum_squares_nonneg: "0 \<le> (a::real) ^ 2 + b ^ 2"
  by simp

lemma calculate_distance_sqrt:
  "calculate_distance lat1 lon1 lat2 lon2 = sqrt ((lat1 - lat2) ^ 2 + (lon1 - lon2) ^ 2) * 111000"
  unfolding calculate_distance_def Let_def
  by (simp only: powr_half_sqrt [OF sum_squares_nonneg])

lemma calculate_distance_le_iff:
  assumes "0 \<le> r"
  shows "calculate_distance lat1 lon1 lat2 lon2 \<le> r
           \<longleftrightarrow> (lat1 - lat2) ^ 2 + (lon1 - lon2) ^ 2 \<le> (r / 111000) ^ 2"
proof -
  let ?x = "(lat1 - lat2) ^ 2 + (lon1 - lon2) ^ 2"
  have "sqrt ?x * 111000 \<le> r \<longleftrightarrow> sqrt ?x \<le> r / 111000"
    by (simp add: pos_le_divide_eq)
  also have "\<dots> \<longleftrightarrow> sqrt ?x \<le> sqrt ((r / 111000) ^ 2)"
    using assms by simp
  also have "\<dots> \<longleftrightarrow> ?x \<le> (r / 111000) ^ 2"
    by (rule real_sqrt_le_iff)
  finally show ?thesis
    by (simp only: calculate_distance_sqrt)
qed

text \<open>
  C5. For every pair of points the distance is the square root of the sum of the squared
  coordinate differences, times the constant 111000; the distance from (0,0) to (0,0) is 0.
  (The function is a value of its four arguments only: it has no state to change.)
\<close>

theorem calculate_distance_formula:
  "calculate_distance lat1 lon1 lat2 lon2
     = sqrt ((lat1 - lat2) ^ 2 + (lon1 - lon2) ^ 2) * 111000
   \<and> calculate_distance 0 0 0 0 = 0"
proof
  show "calculate_distance lat1 lon1 lat2 lon2
          = sqrt ((lat1 - lat2) ^ 2 + (lon1 - lon2) ^ 2) * 111000"
    by (rule calculate_distance_sqrt)
next
  show "calculate_distance 0 0 0 0 = 0"
    by (simp add: calculate_distance_sqrt)
qed

text \<open>
  C9. The distance is symmetric: exchanging the two points does not change it.
\<close>

theorem calculate_distance_symmetric:
  "calculate_distance lat1 lon1 lat2 lon2 = calculate_distance lat2 lon2 lat1 lon1"
proof -
  have "(lat1 - lat2) ^ 2 = (lat2 - lat1) ^ 2" and "(lon1 - lon2) ^ 2 = (lon2 - lon1) ^ 2"
    by (rule power2_commute)+
  then show ?thesis
    by (simp only: calculate_distance_sqrt)
qed

subsection \<open>Status classification\<close>

text \<open>
  C2. The classifier gives a status to the missing delay and to every real delay, with the
  boundaries -5, 5 and 30 belonging to the lower bucket: missing is No GPS Data, at most -5
  is Early, above -5 up to 5 is On Time, above 5 up to 30 is Late, above 30 is Very Late;
  so -5 is Early, 5 is On Time and 30 is Late.
\<close>

theorem get_arrival_status_buckets:
  "get_arrival_status None = ''No GPS Data''
   \<and> (d \<le> - 5 \<longrightarrow> get_arrival_status (Some d) = ''Early'')
   \<and> (- 5 < d \<and> d \<le> 5 \<longrightarrow> get_arrival_status (Some d) = ''On Time'')
   \<and> (5 < d \<and> d \<le> 30 \<longrightarrow> get_arrival_status (Some d) = ''Late'')
   \<and> (30 < d \<longrightarrow> get_arrival_status (Some d) = ''Very Late'')
   \<and> get_arrival_status (Some (- 5)) = ''Early''
   \<and> get_arrival_status (Some 5) = ''On Time''
   \<and> get_arrival_status (Some 30) = ''Late''
   \<and> get_arrival_status x \<in> {''No GPS Data'', ''Early'', ''On Time'', ''Late'', ''Very Late''}"
  by (simp add: get_arrival_status_def split: option.split)

theorem get_arrival_status_buckets_witness:
  "get_arrival_status (Some (- 7)) = ''Early''
   \<and> get_arrival_status (Some (- 4.999)) = ''On Time''
   \<and> get_arrival_status (Some 5.001) = ''Late''
   \<and> get_arrival_status (Some 30.001) = ''Very Late''"
  using get_arrival_status_buckets [of "- 7"] get_arrival_status_buckets [of "- 4.999"]
    get_arrival_status_buckets [of "5.001"] get_arrival_status_buckets [of "30.001"]
  by simp

subsection \<open>Status colours\<close>

text \<open>
  C8. Each of the five statuses has its fixed colour, and every other string gets the
  fallback colour gray: the mapping is defined on every input.
\<close>

theorem get_status_color_total:
  "get_status_color ''Early'' = ''green''
   \<and> get_status_color ''On Time'' = ''lightgreen''
   \<and> get_status_color ''Late'' = ''orange''
   \<and> get_status_color ''Very Late'' = ''red''
   \<and> get_status_color ''No GPS Data'' = ''gray''
   \<and> (status \<notin> {''Early'', ''On Time'', ''Late'', ''Very Late'', ''No GPS Data''}
        \<longrightarrow> get_status_color status = ''gray'')"
  by (simp add: get_status_color_def colors_def)

theorem get_status_color_total_witness:
  "''Unknown'' \<notin> {''Early'', ''On Time'', ''Late'', ''Very Late'', ''No GPS Data''}
   \<and> get_status_color ''Unknown'' = ''gray''"
  using get_status_color_total [of "''Unknown''"]
  by simp

subsection \<open>The resolver\<close>

lemma series_min_Min: "series_min ts = Some (Min (set ts))" if "ts \<noteq> []"
proof (cases ts)
  case Nil
  with that show ?thesis by simp
next
  case (Cons t rest)
  have "fold min rest t = Min (set (t # rest))"
    by (rule Min.set_eq_fold [symmetric])
  with Cons show ?thesis by simp
qed

lemma series_min_None: "series_min ts = None \<longleftrightarrow> ts = []"
  by (cases ts) simp_all

lemma find_arrival_time_qualifying:
  "find_arrival_time gps_data tech_id job_lat job_lon scheduled_time
     = series_min (map timestamp (filter (qualifying tech_id job_lat job_lon scheduled_time) gps_data))"
proof -
  let ?W = "\<lambda>row. technician_id row = tech_id
                \<and> timestamp row \<ge> scheduled_time - Timedelta_hours 2
                \<and> timestamp row \<le> scheduled_time + Timedelta_hours 2"
  let ?U = "\<lambda>row. row\<lparr>distance :=
                 Some (calculate_distance (latitude row) (longitude row) job_lat job_lon)\<rparr>"
  let ?C = "\<lambda>row :: 'a gps_row. case distance row of Some d \<Rightarrow> d \<le> 100 | None \<Rightarrow> False"
  let ?Q = "qualifying tech_id job_lat job_lon scheduled_time"
  have close: "map timestamp (filter ?C (map ?U (filter ?W gps_data)))
                 = map timestamp (filter ?Q gps_data)"
    by (induction gps_data) (simp_all add: qualifying_def)
  show ?thesis
  proof (cases "filter ?W gps_data = []")
    case True
    then have "filter ?Q gps_data = []"
      by (auto simp: filter_empty_conv qualifying_def)
    with True show ?thesis
      by (simp add: find_arrival_time_def)
  next
    case False
    show ?thesis
    proof (cases "filter ?C (map ?U (filter ?W gps_data)) = []")
      case True
      with close have "map timestamp (filter ?Q gps_data) = []"
        by simp
      with True False show ?thesis
        by (simp add: find_arrival_time_def Let_def)
    next
      case nonempty: False
      with False close show ?thesis
        by (simp add: find_arrival_time_def Let_def)
    qed
  qed
qed



lemma find_arrival_time_Some_qualifying:
  assumes "find_arrival_time gps_data tech_id job_lat job_lon scheduled_time = Some t"
  shows "\<exists>p \<in> set gps_data. qualifying tech_id job_lat job_lon scheduled_time p \<and> timestamp p = t"
proof -
  let ?ts = "map timestamp (filter (qualifying tech_id job_lat job_lon scheduled_time) gps_data)"
  from assms have s: "series_min ?ts = Some t"
    by (simp only: find_arrival_time_qualifying)
  then have ne: "?ts \<noteq> []"
    by (auto simp del: series_min.simps simp: series_min_None [symmetric])
  from series_min_Min [OF ne] s have "t = Min (set ?ts)"
    by simp
  moreover from ne have "Min (set ?ts) \<in> set ?ts"
    by (metis Min_in List.finite_set set_empty)
  ultimately have "t \<in> set ?ts"
    by simp
  then show ?thesis
    by auto
qed

lemma delay_minutes_bounds:
  assumes "s - Timedelta_hours 2 \<le> t" and "t \<le> s + Timedelta_hours 2"
  shows "- 120 \<le> total_seconds (t - s) / 60" and "total_seconds (t - s) / 60 \<le> 120"
proof -
  from assms have "- 7200000000000 \<le> t - s" and "t - s \<le> 7200000000000"
    by (simp_all add: Timedelta_hours_def)
  then have "- 7200000000000 \<le> real_of_int (t - s)" and "real_of_int (t - s) \<le> 7200000000000"
    by linarith+
  then show "- 120 \<le> total_seconds (t - s) / 60" and "total_seconds (t - s) / 60 \<le> 120"
    by (simp_all add: total_seconds_def)
qed

lemma example_pings_qualifying:
  "filter (qualifying ''T'' 0 0 1704099600000000000) example_pings
   = [\<lparr>technician_id = ''T'', timestamp = 1704099900000000000,
       latitude = 80 / 111000, longitude = 0, distance = None\<rparr>,
      \<lparr>technician_id = ''T'', timestamp = 1704100200000000000,
       latitude = 60 / 111000, longitude = 0, distance = None\<rparr>]"
  by (simp add: example_pings_def qualifying_def calculate_distance_le_iff Timedelta_hours_def
      power2_eq_square)

lemma example_pings_arrival:
  "find_arrival_time example_pings ''T'' 0 0 1704099600000000000 = Some 1704099900000000000"
  by (simp add: find_arrival_time_qualifying example_pings_qualifying)











text \<open>
  C10. A timestamp returned by the resolver lies within two hours of the scheduled start,
  so the delay derived from it lies between -120 and 120 minutes; the same holds for the
  delay that the analysis of a job reports, whatever its status.
\<close>

theorem find_arrival_time_within_window:
  "(find_arrival_time gps_data tech_id job_lat job_lon scheduled_time = Some t
      \<longrightarrow> scheduled_time - Timedelta_hours 2 \<le> t \<and> t \<le> scheduled_time + Timedelta_hours 2)
   \<and> (delay_minutes (find_arrival_time gps_data tech_id job_lat job_lon scheduled_time) scheduled_time
         = Some d
      \<longrightarrow> - 120 \<le> d \<and> d \<le> 120)
   \<and> (analyze_job gps_data job = (arrival, Some delay, status)
      \<longrightarrow> - 120 \<le> delay \<and> delay \<le> 120)"
proof -
  have win: "s - Timedelta_hours 2 \<le> u \<and> u \<le> s + Timedelta_hours 2"
    if "find_arrival_time gps_data tid la lo s = Some u" for tid la lo s u
    using find_arrival_time_Some_qualifying [OF that] by (auto simp: qualifying_def)
  have del: "- 120 \<le> e \<and> e \<le> 120"
    if "delay_minutes (find_arrival_time gps_data tid la lo s) s = Some e" for tid la lo s e
  proof (cases "find_arrival_time gps_data tid la lo s")
    case None
    with that show ?thesis by (simp add: delay_minutes_def)
  next
    case (Some u)
    with that have e: "e = total_seconds (u - s) / 60"
      by (simp add: delay_minutes_def)
    from win [OF Some] delay_minutes_bounds [of s u] show ?thesis
      unfolding e by blast
  qed
  have job: "- 120 \<le> delay \<and> delay \<le> 120"
    if "analyze_job gps_data job = (arrival, Some delay, status)"
  proof -
    from that have "delay_minutes (find_arrival_time gps_data (job_technician_id job)
                      (job_latitude job) (job_longitude job) (scheduled_start job))
                      (scheduled_start job) = Some delay"
      by (auto simp add: analyze_job_def Let_def)
    then show ?thesis
      by (rule del)
  qed
  from win del job show ?thesis
    by blast
qed

theorem find_arrival_time_within_window_witness:
  "find_arrival_time example_pings ''T'' 0 0 1704099600000000000 = Some 1704099900000000000
   \<and> (1704099600000000000 - Timedelta_hours 2 \<le> 1704099900000000000
        \<and> 1704099900000000000 \<le> 1704099600000000000 + Timedelta_hours 2)
   \<and> delay_minutes (find_arrival_time example_pings ''T'' 0 0 1704099600000000000)
        1704099600000000000 = Some 5
   \<and> (- 120 \<le> (5::real) \<and> (5::real) \<le> 120)"
proof -
  have e: "find_arrival_time example_pings ''T'' 0 0 1704099600000000000 = Some 1704099900000000000"
    by (rule example_pings_arrival)
  have w: "1704099600000000000 - Timedelta_hours 2 \<le> 1704099900000000000
             \<and> 1704099900000000000 \<le> 1704099600000000000 + Timedelta_hours 2"
    by (rule find_arrival_time_within_window [THEN conjunct1, THEN mp, OF e])
  have d: "delay_minutes (find_arrival_time example_pings ''T'' 0 0 1704099600000000000)
             1704099600000000000 = Some 5"
    by (simp add: e delay_minutes_def total_seconds_def)
  have b: "- 120 \<le> (5::real) \<and> (5::real) \<le> 120"
    by (rule find_arrival_time_within_window [THEN conjunct2, THEN conjunct1, THEN mp, OF d])
  show ?thesis
    by (rule conjI [OF e conjI [OF w conjI [OF d b]]])
qed

subsection \<open>End to end\<close>

text \<open>
  C6. One job scheduled at 2024-01-01T09:00:00 (1704099600 seconds after the epoch) at
  (37.0, -122.0) and one ping of the same technician at 09:12:00 at (37.0001, -122.0001):
  the arrival is 09:12:00, the delay is 12 minutes and the status is Late.
\<close>

theorem analyze_job_end_to_end:
  "analyze_job
     [\<lparr>technician_id = tid, timestamp = 1704100320000000000,
       latitude = 37.0001, longitude = - 122.0001, distance = None\<rparr>]
     \<lparr>job_technician_id = tid, job_id = jid, job_latitude = 37.0, job_longitude = - 122.0,
      scheduled_start = 1704099600000000000\<rparr>
   = (Some 1704100320000000000, Some 12, ''Late'')"
  by (simp add: analyze_job_def find_arrival_time_qualifying qualifying_def
      calculate_distance_le_iff Timedelta_hours_def delay_minutes_def total_seconds_def
      get_arrival_status_def power2_eq_square)

subsection \<open>The GPS table is not changed\<close>

text \<open>
  The resolver does write to the store: in the example below it creates three frames and
  sets the column \<open>distance\<close> of its copy (reference 2).
\<close>

lemma find_arrival_time_store_example:
  "find_arrival_time_store 0 ''T'' 0 0 1704099600000000000
     \<lparr>frames = (\<lambda>r. [])(0 :=
        [\<lparr>technician_id = ''T'', timestamp = 1704099900000000000,
          latitude = 80 / 111000, longitude = 0, distance = None\<rparr>]),
      next_ref = 1\<rparr>
   = (Some 1704099900000000000,
      \<lparr>frames = (\<lambda>r. [])
         (0 := [\<lparr>technician_id = ''T'', timestamp = 1704099900000000000,
                 latitude = 80 / 111000, longitude = 0, distance = None\<rparr>],
          Suc 0 := [\<lparr>technician_id = ''T'', timestamp = 1704099900000000000,
                     latitude = 80 / 111000, longitude = 0, distance = None\<rparr>],
          Suc (Suc 0) := [\<lparr>technician_id = ''T'', timestamp = 1704099900000000000,
                           latitude = 80 / 111000, longitude = 0, distance = Some 80\<rparr>],
          Suc (Suc (Suc 0)) := [\<lparr>technician_id = ''T'', timestamp = 1704099900000000000,
                                 latitude = 80 / 111000, longitude = 0, distance = Some 80\<rparr>]),
       next_ref = Suc (Suc (Suc (Suc 0)))\<rparr>)"
  by (simp add: find_arrival_time_store_def new_frame_def set_frame_def Let_def
      Timedelta_hours_def calculate_distance_sqrt)

text \<open>
  C7. After a call of the resolver the GPS table it was given holds the same rows, with the
  same values in every column, as before; so does every other frame that existed before
  the call. The value returned is the one of \<open>find_arrival_time\<close> on the rows of the table.
\<close>

theorem find_arrival_time_store_frame:
  assumes "gps_data < next_ref s"
  shows "frames (snd (find_arrival_time_store gps_data tech_id job_lat job_lon scheduled_time s)) gps_data
           = frames s gps_data
         \<and> (\<forall>r < next_ref s.
               frames (snd (find_arrival_time_store gps_data tech_id job_lat job_lon scheduled_time s)) r
                 = frames s r)
         \<and> fst (find_arrival_time_store gps_data tech_id job_lat job_lon scheduled_time s)
             = find_arrival_time (frames s gps_data) tech_id job_lat job_lon scheduled_time"
  using assms
  by (simp add: find_arrival_time_store_def find_arrival_time_def new_frame_def set_frame_def Let_def)

theorem find_arrival_time_store_frame_witness:
  "(0::nat) < next_ref \<lparr>frames = (\<lambda>r. []), next_ref = 1\<rparr>
   \<and> frames (snd (find_arrival_time_store 0 ''T'' 0 0 1704099600000000000
                    \<lparr>frames = (\<lambda>r. [])(0 :=
                       [\<lparr>technician_id = ''T'', timestamp = 1704099900000000000,
                         latitude = 80 / 111000, longitude = 0, distance = None\<rparr>]),
                     next_ref = 1\<rparr>)) 0
       = [\<lparr>technician_id = ''T'', timestamp = 1704099900000000000,
            latitude = 80 / 111000, longitude = 0, distance = None\<rparr>]"
proof -
  let ?s = "\<lparr>frames = (\<lambda>r. [])(0 :=
                       [\<lparr>technician_id = ''T'', timestamp = 1704099900000000000,
                         latitude = 80 / 111000, longitude = 0, distance = None\<rparr>]),
                     next_ref = 1\<rparr> :: string store"
  have h: "0 < next_ref ?s"
    by simp
  have "frames (snd (find_arrival_time_store 0 ''T'' 0 0 1704099600000000000 ?s)) 0 = frames ?s 0"
    by (rule find_arrival_time_store_frame [OF h, THEN conjunct1])
  then show ?thesis
    by simp
qed

end
